theory Spec2Isabelle
  imports Complex_Main "HOL-Library.Product_Lexorder" "HOL-Library.Char_ord" "HOL-Library.List_Lexorder"
begin

section \<open>Python values shared by the whole pipeline\<close>

text \<open>
  Exceptions of the Python runtime that the modelled functions can raise. A function that
  can raise returns \<open>error + 'a\<close>, with \<open>Inl\<close> for the exception.
\<close>

datatype error = AttributeError | IndexError | TypeError | ValueError | KeyError | RecursionError

text \<open>
  A token (class \<open>Token\<close> of \<open>document.py\<close>) is nothing but its attribute dictionary
  \<open>__dict__\<close>, here an association list from attribute names to string values.
\<close>

type_synonym token = "(string \<times> string) list"

text \<open>\<open>d[k] = v\<close>: an existing key keeps its place, a new key goes to the end.\<close>

fun dict_set :: "'k \<Rightarrow> 'v \<Rightarrow> ('k \<times> 'v) list \<Rightarrow> ('k \<times> 'v) list" where
  "dict_set k v [] = [(k, v)]"
| "dict_set k v ((k', v') # r) = (if k' = k then (k, v) # r else (k', v') # dict_set k v r)"

definition startswith :: "string \<Rightarrow> string \<Rightarrow> bool" where
  "startswith s p = (take (length p) s = p)"

text \<open>
  A character is a code point below 256. The white space that \<open>str.strip()\<close> and
  \<open>int()\<close> drop there: the ASCII controls 9 to 13 and 28 to 31, the space, and the two
  Latin-1 characters \<open>U+0085\<close> and \<open>U+00A0\<close>.
\<close>

definition is_space :: "char \<Rightarrow> bool" where
  "is_space c = (c \<in> set [CHR 0x09, CHR 0x0A, CHR 0x0B, CHR 0x0C, CHR 0x0D,
                            CHR 0x1C, CHR 0x1D, CHR 0x1E, CHR 0x1F, CHR 0x20,
                            CHR 0x85, CHR 0xA0])"

definition strip :: "string \<Rightarrow> string" where
  "strip s = rev (dropWhile is_space (rev (dropWhile is_space s)))"

fun split_chr :: "char \<Rightarrow> string \<Rightarrow> string list" where
  "split_chr d [] = [[]]"
| "split_chr d (c # cs) =
     (if c = d then [] # split_chr d cs
      else (case split_chr d cs of [] \<Rightarrow> [[c]] | w # ws \<Rightarrow> (c # w) # ws))"

text \<open>
  Python's \<open>int(s)\<close> on a string of such characters: surrounding white space is dropped, one sign is
  allowed, and the digits may be grouped by single underscores. \<open>None\<close> stands for the
  \<open>ValueError\<close> of a string that is no integer literal.
\<close>

definition digit_val :: "char \<Rightarrow> nat option" where
  "digit_val c = (let n = (of_char c :: nat) in if 48 \<le> n \<and> n \<le> 57 then Some (n - 48) else None)"

fun py_digits :: "bool \<Rightarrow> nat \<Rightarrow> string \<Rightarrow> nat option" where
  "py_digits prev acc [] = (if prev then Some acc else None)"
| "py_digits prev acc (c # cs) =
     (if c = CHR ''_'' then (if prev then py_digits False acc cs else None)
      else (case digit_val c of None \<Rightarrow> None | Some d \<Rightarrow> py_digits True (10 * acc + d) cs))"

definition py_int :: "string \<Rightarrow> int option" where
  "py_int s =
     (case strip s of
        [] \<Rightarrow> None
      | c # cs \<Rightarrow>
          if c = CHR ''-'' then map_option (\<lambda>n. - int n) (py_digits False 0 cs)
          else if c = CHR ''+'' then map_option int (py_digits False 0 cs)
          else map_option int (py_digits False 0 (c # cs)))"

text \<open>
  \<open>list.insert(index, x)\<close> of Python never raises: a negative index counts from the end
  and every index is clamped into \<open>0 .. len\<close>.
\<close>

definition py_list_insert :: "int \<Rightarrow> 'a \<Rightarrow> 'a list \<Rightarrow> 'a list" where
  "py_list_insert i x xs =
     (let n = int (length xs);
          j = (if i < 0 then max 0 (i + n) else min i n)
      in take (nat j) xs @ [x] @ drop (nat j) xs)"


text \<open>
  Sequencing of computations that can raise: the first exception ends the computation.
\<close>

definition bind :: "error + 'a \<Rightarrow> ('a \<Rightarrow> error + 'b) \<Rightarrow> error + 'b" where
  "bind m f = (case m of Inl e \<Rightarrow> Inl e | Inr x \<Rightarrow> f x)"

fun fold_err :: "('a \<Rightarrow> 's \<Rightarrow> error + 's) \<Rightarrow> 'a list \<Rightarrow> 's \<Rightarrow> error + 's" where
  "fold_err f [] s = Inr s"
| "fold_err f (x # xs) s = bind (f x s) (fold_err f xs)"

text \<open>
  Reading \<open>xs[i]\<close> for a Python integer \<open>i\<close>: a negative index counts from the end; an
  index outside \<open>-len .. len - 1\<close> raises \<open>IndexError\<close> (here \<open>None\<close>).
\<close>

definition py_index :: "nat \<Rightarrow> int \<Rightarrow> nat option" where
  "py_index n i =
     (if 0 \<le> i \<and> i < int n then Some (nat i)
      else if - int n \<le> i \<and> i < 0 then Some (nat (i + int n))
      else None)"

section \<open>Trees (\<open>C6C/src/document.py\<close>)\<close>

text \<open>
  A \<open>Tree\<close> node has a category, a list of child nodes and, for terminal nodes built by
  the importers, a \<open>token\<close> attribute. The parent back-reference is not part of the value:
  a node's parent is the node whose \<open>children\<close> hold it.
\<close>

datatype tree = Tree (category: string) (tree_token: "token option") (children: "tree list")

text \<open>
  \<open>Tree.insert_child\<close>: \<open>self.children.insert(index, node)\<close> inside \<open>try\<close>, \<open>True\<close> on
  success and \<open>False\<close> from the \<open>except IndexError\<close> branch. The insertion cannot raise,
  so the model has the single branch that runs. The result is the returned flag and the
  updated node.
\<close>

definition insert_child :: "tree \<Rightarrow> int \<Rightarrow> tree \<Rightarrow> bool \<times> tree" where
  "insert_child self index node =
     (True, Tree (category self) (tree_token self) (py_list_insert index node (children self)))"







section \<open>Spans (\<open>annotations.py\<close>)\<close>

text \<open>
  \<open>Span\<close> objects are mutable and shared: the decoder keeps a span on its stack while
  the same object is an element of its parent. They live in an explicit store, addressed
  by natural numbers. An element of a span is a token or the address of another span.

  The attributes \<open>start\<close> and \<open>end\<close> are created by the first index update only, so
  each is optional; once created they hold \<open>None\<close>, an integer or the raw \<open>ID\<close> string.
  \<open>heads\<close>, \<open>movElem\<close> and \<open>distance\<close> are the attributes that the subclass
  \<open>Antecedent\<close> adds (\<open>distance\<close> again exists only once it has been computed).
\<close>

datatype pyidx = PNone | PInt int | PStr string

datatype elem = Tok token | Ref nat

record obj =
  lab :: string
  parent :: "nat option"
  elems :: "elem list"
  start_ix :: "pyidx option"
  end_ix :: "pyidx option"
  heads :: "token list"
  movElem :: "nat option"
  distance :: "int option"

record heap =
  objs :: "nat \<Rightarrow> obj"
  nxt :: nat

definition new_obj :: "string \<Rightarrow> obj" where
  "new_obj label = \<lparr>lab = label, parent = None, elems = [], start_ix = None, end_ix = None,
                     heads = [], movElem = None, distance = None\<rparr>"

definition empty_heap :: heap where
  "empty_heap = \<lparr>objs = (\<lambda>_. new_obj []), nxt = 0\<rparr>"

definition upd :: "heap \<Rightarrow> nat \<Rightarrow> (obj \<Rightarrow> obj) \<Rightarrow> heap" where
  "upd h a f = h\<lparr>objs := (objs h)(a := f (objs h a))\<rparr>"

definition alloc :: "heap \<Rightarrow> obj \<Rightarrow> heap \<times> nat" where
  "alloc h ob = (h\<lparr>objs := (objs h)(nxt h := ob), nxt := Suc (nxt h)\<rparr>, nxt h)"

text \<open>\<open>element.set_parent(self)\<close>, guarded by \<open>isinstance(element, Span)\<close>.\<close>

definition set_parent :: "heap \<Rightarrow> elem \<Rightarrow> nat \<Rightarrow> heap" where
  "set_parent h e p = (case e of Tok _ \<Rightarrow> h | Ref b \<Rightarrow> upd h b (\<lambda>ob. ob\<lparr>parent := Some p\<rparr>))"

text \<open>
  The recursive walks over a span carry the depth that Python's recursion limit still
  allows; running out of it is Python's \<open>RecursionError\<close>.
\<close>

fun get_tokens :: "nat \<Rightarrow> heap \<Rightarrow> nat \<Rightarrow> error + token list" where
  "get_tokens 0 h a = Inl RecursionError"
| "get_tokens (Suc n) h a =
     fold_err (\<lambda>e tokens. case e of
                  Tok t \<Rightarrow> Inr (tokens @ [t])
                | Ref b \<Rightarrow> bind (get_tokens n h b) (\<lambda>ts. Inr (tokens @ ts)))
       (elems (objs h a)) []"

text \<open>
  \<open>tokens[0].__dict__.get("ID", None)\<close>, then \<open>int(...) - 1\<close> when the value is truthy.
\<close>

definition index_from_ID :: "token \<Rightarrow> error + pyidx" where
  "index_from_ID t =
     (case map_of t ''ID'' of
        None \<Rightarrow> Inr PNone
      | Some s \<Rightarrow>
          if s = [] then Inr (PStr s)
          else (case py_int s of None \<Rightarrow> Inl ValueError | Some n \<Rightarrow> Inr (PInt (n - 1))))"

fun update_start_index :: "nat \<Rightarrow> heap \<Rightarrow> nat \<Rightarrow> error + heap" where
  "update_start_index 0 h a = Inl RecursionError"
| "update_start_index (Suc n) h a =
     (if elems (objs h a) \<noteq> [] then
        bind (get_tokens (Suc n) h a) (\<lambda>tokens.
        bind (case tokens of [] \<Rightarrow> Inr PNone | t # _ \<Rightarrow> index_from_ID t) (\<lambda>v.
          fold_err (\<lambda>e h'. case e of Tok _ \<Rightarrow> Inr h' | Ref b \<Rightarrow> update_start_index n h' b)
            (elems (objs h a)) (upd h a (\<lambda>ob. ob\<lparr>start_ix := Some v\<rparr>))))
      else Inr (upd h a (\<lambda>ob. ob\<lparr>start_ix := Some PNone\<rparr>)))"

fun update_end_index :: "nat \<Rightarrow> heap \<Rightarrow> nat \<Rightarrow> error + heap" where
  "update_end_index 0 h a = Inl RecursionError"
| "update_end_index (Suc n) h a =
     (if elems (objs h a) \<noteq> [] then
        bind (get_tokens (Suc n) h a) (\<lambda>tokens.
        bind (if tokens = [] then Inr PNone else index_from_ID (last tokens)) (\<lambda>v.
          fold_err (\<lambda>e h'. case e of Tok _ \<Rightarrow> Inr h' | Ref b \<Rightarrow> update_end_index n h' b)
            (elems (objs h a)) (upd h a (\<lambda>ob. ob\<lparr>end_ix := Some v\<rparr>))))
      else Inr (upd h a (\<lambda>ob. ob\<lparr>end_ix := Some PNone\<rparr>)))"

definition set_elements :: "nat \<Rightarrow> heap \<Rightarrow> nat \<Rightarrow> elem list \<Rightarrow> error + heap" where
  "set_elements n h a elements =
     bind (update_start_index n
             (fold (\<lambda>e h'. upd (set_parent h' e a) a (\<lambda>ob. ob\<lparr>elems := elems ob @ [e]\<rparr>))
                elements (upd h a (\<lambda>ob. ob\<lparr>elems := []\<rparr>))) a)
       (\<lambda>h'. update_end_index n h' a)"

definition append_element :: "nat \<Rightarrow> heap \<Rightarrow> nat \<Rightarrow> elem \<Rightarrow> error + heap" where
  "append_element n h a element =
     (if elems (objs h a) = [] then
        bind (set_elements n (set_parent h element a) a [element]) (\<lambda>h1.
        bind (update_start_index n h1 a) (\<lambda>h2.
          update_start_index n h2 a))
      else
        update_end_index n
          (upd (set_parent h element a) a (\<lambda>ob. ob\<lparr>elems := elems ob @ [element]\<rparr>)) a)"

text \<open>
  \<open>Span(label, elements)\<close> with the default \<open>parent_span = None\<close> and no further keyword
  arguments: the constructor sets label, parent and an empty element list and appends the
  elements one by one. It touches no index attribute itself.
\<close>

definition Span_init :: "nat \<Rightarrow> heap \<Rightarrow> string \<Rightarrow> elem list \<Rightarrow> error + (heap \<times> nat)" where
  "Span_init n h label elements =
     (case alloc h (new_obj label) of (h0, a) \<Rightarrow>
        bind (fold_err (\<lambda>e h'. append_element n h' a e) elements h0) (\<lambda>h'. Inr (h', a)))"


text \<open>
  The scans in \<open>get_start_index\<close> and \<open>get_end_index\<close> for \<open>ignore_punct = True\<close>: the
  first token (of the list as given) whose \<open>XPOS\<close> does not start with \<open>$\<close> decides.
  \<open>t.XPOS\<close> and \<open>t.ID\<close> are attribute reads and raise \<open>AttributeError\<close> when absent.
\<close>

fun first_word_index :: "token list \<Rightarrow> error + pyidx" where
  "first_word_index [] = Inr PNone"
| "first_word_index (t # ts) =
     (case map_of t ''XPOS'' of
        None \<Rightarrow> Inl AttributeError
      | Some x \<Rightarrow>
          if \<not> startswith x ''$'' then
            (case map_of t ''ID'' of
               None \<Rightarrow> Inl AttributeError
             | Some s \<Rightarrow> (case py_int s of None \<Rightarrow> Inl ValueError | Some i \<Rightarrow> Inr (PInt (i - 1))))
          else first_word_index ts)"

definition get_start_index :: "nat \<Rightarrow> heap \<Rightarrow> nat \<Rightarrow> bool \<Rightarrow> error + (heap \<times> pyidx)" where
  "get_start_index n h a ignore_punct =
     (if \<not> ignore_punct then
        (case start_ix (objs h a) of
           None \<Rightarrow> Inl AttributeError
         | Some v \<Rightarrow>
             if v = PNone then
               bind (update_start_index n h a) (\<lambda>h'.
                 case start_ix (objs h' a) of None \<Rightarrow> Inl AttributeError | Some v' \<Rightarrow> Inr (h', v'))
             else Inr (h, v))
      else if elems (objs h a) \<noteq> [] then
        bind (get_tokens n h a) (\<lambda>tokens.
          if tokens \<noteq> [] then bind (first_word_index tokens) (\<lambda>v. Inr (h, v))
          else Inr (h, PNone))
      else Inr (h, PNone))"

definition get_end_index :: "nat \<Rightarrow> heap \<Rightarrow> nat \<Rightarrow> bool \<Rightarrow> error + (heap \<times> pyidx)" where
  "get_end_index n h a ignore_punct =
     (if \<not> ignore_punct then
        (case end_ix (objs h a) of
           None \<Rightarrow> Inl AttributeError
         | Some v \<Rightarrow>
             if v = PNone then
               bind (update_end_index n h a) (\<lambda>h'.
                 case end_ix (objs h' a) of None \<Rightarrow> Inl AttributeError | Some v' \<Rightarrow> Inr (h', v'))
             else Inr (h, v))
      else if elems (objs h a) \<noteq> [] then
        bind (get_tokens n h a) (\<lambda>tokens.
          if tokens \<noteq> [] then bind (first_word_index (rev tokens)) (\<lambda>v. Inr (h, v))
          else Inr (h, PNone))
      else Inr (h, PNone))"

text \<open>
  \<open>insert_element\<close>. The result says, besides the store, whether the error line was
  printed; the Python function returns \<open>None\<close> on every path.
\<close>

definition insert_element :: "nat \<Rightarrow> heap \<Rightarrow> nat \<Rightarrow> int \<Rightarrow> elem \<Rightarrow> error + (heap \<times> bool)" where
  "insert_element n h a index element =
     (if index < int (length (elems (objs h a))) then
        bind (update_start_index n
                (upd (set_parent h element a) a
                   (\<lambda>ob. ob\<lparr>elems := py_list_insert index element (elems ob)\<rparr>)) a) (\<lambda>h1.
        bind (update_end_index n h1 a) (\<lambda>h2. Inr (h2, False)))
      else if index = int (length (elems (objs h a))) then
        bind (append_element n h a element) (\<lambda>h1.
        bind (update_start_index n h1 a) (\<lambda>h2.
        bind (update_end_index n h2 a) (\<lambda>h3. Inr (h3, False))))
      else Inr (h, True))"






section \<open>The BIO codec of \<open>Span\<close>\<close>

subsection \<open>Decoding: \<open>Span.span_from_BIO_annotation\<close>\<close>

text \<open>
  The state of the decoding loop: the store, the list \<open>spans\<close> of finished spans and the
  stack \<open>span_stack\<close> of open spans, the outermost first (\<open>pop\<close> takes the last).
\<close>

record dstate =
  d_heap :: heap
  spans :: "nat list"
  span_stack :: "nat list"

text \<open>
  What the branch for \<open>B-\<close> does to list and stack before it creates the new span. In
  \<open>Span\<close>, on level 0 with a non-empty stack, \<open>spans.append(span_stack.pop())\<close> moves the
  last span of the stack to the list; on the other levels the stack is cut to length \<open>i\<close>.
\<close>

definition Span_begin_level :: "nat \<Rightarrow> dstate \<Rightarrow> dstate" where
  "Span_begin_level i st =
     (if i = 0 \<and> span_stack st \<noteq> [] then
        st\<lparr>spans := spans st @ [last (span_stack st)], span_stack := butlast (span_stack st)\<rparr>
      else st\<lparr>span_stack := take i (span_stack st)\<rparr>)"

text \<open>
  The same lines in \<open>MovElem.span_from_BIO_annotation\<close>:
  \<open>spans.append(span_stack[0])\<close> and \<open>span_stack = []\<close>.
\<close>

definition MovElem_begin_level :: "nat \<Rightarrow> dstate \<Rightarrow> dstate" where
  "MovElem_begin_level i st =
     (if i = 0 \<and> span_stack st \<noteq> [] then
        st\<lparr>spans := spans st @ [hd (span_stack st)], span_stack := []\<rparr>
      else st\<lparr>span_stack := take i (span_stack st)\<rparr>)"

text \<open>
  One annotation level \<open>i\<close> of a token whose annotation has \<open>len_annos\<close> levels: the body
  of \<open>for i, annotation in enumerate(annotations)\<close>. \<open>span_stack[i]\<close> raises
  \<open>IndexError\<close> when the stack has no position \<open>i\<close>.
\<close>

definition decode_level :: "nat \<Rightarrow> token \<Rightarrow> nat \<Rightarrow> nat \<Rightarrow> string \<Rightarrow> dstate \<Rightarrow> error + dstate" where
  "decode_level n tok len_annos i annotation st =
     (if startswith annotation ''B-'' then
        (let st1 = Span_begin_level i st in
         case split_chr CHR ''-'' annotation of
           _ # label # _ \<Rightarrow>
             bind (Span_init n (d_heap st1) label (if i + 1 < len_annos then [] else [Tok tok]))
               (\<lambda>(h, p).
                  bind (if span_stack st1 \<noteq> [] then
                          append_element n (set_parent h (Ref p) (last (span_stack st1)))
                            (last (span_stack st1)) (Ref p)
                        else Inr h)
                    (\<lambda>h'. Inr (st1\<lparr>d_heap := h', span_stack := span_stack st1 @ [p]\<rparr>)))
         | _ \<Rightarrow> Inl IndexError)
      else if startswith annotation ''I-'' then
        (if i < length (span_stack st) then
           bind (append_element n (d_heap st) (span_stack st ! i) (Tok tok))
             (\<lambda>h'. Inr (st\<lparr>d_heap := h'\<rparr>))
         else Inl IndexError)
      else Inr st)"

text \<open>One token: the body of \<open>for tok in sentence.tokens\<close>.\<close>

definition decode_token :: "nat \<Rightarrow> string \<Rightarrow> token \<Rightarrow> dstate \<Rightarrow> error + dstate" where
  "decode_token n annoname tok st =
     (let anno = (case map_of tok annoname of None \<Rightarrow> ''O'' | Some s \<Rightarrow> s) in
      if anno = ''O'' \<or> anno = ''_'' then
        Inr (if span_stack st \<noteq> [] then
               st\<lparr>spans := spans st @ [hd (span_stack st)], span_stack := []\<rparr>
             else st)
      else
        (let annotations = split_chr CHR ''|'' (strip anno) in
         fold_err (\<lambda>(i, annotation). decode_level n tok (length annotations) i annotation)
           (enumerate 0 annotations)
           (st\<lparr>span_stack := take (length annotations) (span_stack st)\<rparr>)))"

definition span_from_BIO_annotation ::
    "nat \<Rightarrow> heap \<Rightarrow> token list \<Rightarrow> string \<Rightarrow> error + (heap \<times> nat list)" where
  "span_from_BIO_annotation n h sentence annoname =
     bind (fold_err (decode_token n annoname) sentence
             \<lparr>d_heap = h, spans = [], span_stack = []\<rparr>) (\<lambda>st.
       (let result = (if span_stack st \<noteq> [] then spans st @ [hd (span_stack st)] else spans st) in
        bind (fold_err (\<lambda>a h'. bind (update_start_index n h' a) (\<lambda>h''. update_end_index n h'' a))
                result (d_heap st))
          (\<lambda>h'. Inr (h', result))))"

subsection \<open>Encoding: \<open>Span.span_to_BIO_annotation\<close>\<close>

text \<open>The inner function \<open>get_bio_spans\<close>: the tuples of a span and of the spans below it.\<close>

fun get_bio_spans :: "nat \<Rightarrow> heap \<Rightarrow> nat \<Rightarrow> error + (heap \<times> (string \<times> pyidx \<times> pyidx) list)" where
  "get_bio_spans 0 h a = Inl RecursionError"
| "get_bio_spans (Suc n) h a =
     bind (update_end_index (Suc n) h a) (\<lambda>h1.
     bind (update_start_index (Suc n) h1 a) (\<lambda>h2.
     bind (get_start_index (Suc n) h2 a False) (\<lambda>(h3, s).
     bind (get_end_index (Suc n) h3 a False) (\<lambda>(h4, e).
       fold_err (\<lambda>el (h', acc). case el of
                    Tok _ \<Rightarrow> Inr (h', acc)
                  | Ref b \<Rightarrow> bind (get_bio_spans n h' b) (\<lambda>(h'', sub). Inr (h'', acc @ sub)))
         (elems (objs h4 a)) (h4, [(lab (objs h4 a), s, e)])))))"

text \<open>
  \<open>sorted(bio_spans, key=lambda l: (l[1], 0-l[2]))\<close> and the indexing of
  \<open>bio_annotations\<close> need integers: \<open>0 - l[2]\<close>, the comparison of keys whose first
  components differ in type, and \<open>bio_annotations[l[1]]\<close> each raise \<open>TypeError\<close> on
  \<open>None\<close> or a string, and nothing is written before. With integers the sort is the stable
  sort by start, then by descending end.
\<close>

fun int_spans :: "(string \<times> pyidx \<times> pyidx) list \<Rightarrow> error + (string \<times> int \<times> int) list" where
  "int_spans [] = Inr []"
| "int_spans ((l, PInt s, PInt e) # r) = bind (int_spans r) (\<lambda>r'. Inr ((l, s, e) # r'))"
| "int_spans _ = Inl TypeError"

definition sorted_spans :: "(string \<times> int \<times> int) list \<Rightarrow> (string \<times> int \<times> int) list" where
  "sorted_spans bio_spans = sort_key (\<lambda>(l, s, e). (s, 0 - e)) bio_spans"

text \<open>Appending a tag to the annotation of token \<open>i\<close>, after a pipe if there is one already.\<close>

definition add_tag :: "string \<Rightarrow> int \<Rightarrow> string list \<Rightarrow> error + string list" where
  "add_tag tag i bio_annotations =
     (case py_index (length bio_annotations) i of
        None \<Rightarrow> Inl IndexError
      | Some j \<Rightarrow>
          Inr (bio_annotations[j :=
                 (if bio_annotations ! j \<noteq> [] then bio_annotations ! j @ ''|'' @ tag else tag)]))"

definition annotate_span :: "string \<times> int \<times> int \<Rightarrow> string list \<Rightarrow> error + string list" where
  "annotate_span sp bio_annotations =
     (case sp of (l, s, e) \<Rightarrow>
        bind (add_tag (''B-'' @ l) s bio_annotations)
          (fold_err (add_tag (''I-'' @ l)) [s + 1 .. e]))"

definition span_to_BIO_annotation ::
    "nat \<Rightarrow> heap \<Rightarrow> token list \<Rightarrow> nat list \<Rightarrow> string \<Rightarrow> error + (heap \<times> token list)" where
  "span_to_BIO_annotation n h sentence span_objs annoname =
     bind (fold_err (\<lambda>span_obj (h', bio).
                       bind (get_bio_spans n h' span_obj) (\<lambda>(h'', bio_spans).
                       bind (int_spans bio_spans) (\<lambda>tuples.
                       bind (fold_err annotate_span (sorted_spans tuples) bio) (\<lambda>bio'.
                         Inr (h'', bio')))))
             span_objs (h, replicate (length sentence) []))
       (\<lambda>(h', bio).
          Inr (h', map (\<lambda>(tok, b). dict_set annoname (if b = [] then ''O'' else b) tok)
                     (zip sentence bio)))"

subsection \<open>Reading a span back as a value\<close>

text \<open>
  The tree a span stands for: its label and its elements in order, tokens as they are and
  sub-spans as trees. Two span forests are isomorphic when these trees are equal.
\<close>

datatype stree = STree string "selem list"
  and selem = STok token | SSpan stree

fun reify :: "nat \<Rightarrow> heap \<Rightarrow> nat \<Rightarrow> stree option" where
  "reify 0 h a = None"
| "reify (Suc n) h a =
     map_option (STree (lab (objs h a)))
       (those (map (\<lambda>e. case e of
                       Tok t \<Rightarrow> Some (STok t)
                     | Ref b \<Rightarrow> map_option SSpan (reify n h b))
          (elems (objs h a))))"

section \<open>Antecedents and their evaluation\<close>

subsection \<open>\<open>Antecedent.get_distance\<close> (\<open>annotations.py\<close>)\<close>












subsection \<open>\<open>evaluate_antecedents\<close> (\<open>evaluation.py\<close>)\<close>






































section \<open>The additive merge of dictionaries (\<open>helper_functions.py\<close>)\<close>

text \<open>
  The values a count dictionary holds: numbers (\<open>bool\<close> is a subclass of \<open>int\<close> in
  Python), strings, lists, sets of hashable atoms \<open>'a\<close>, and dictionaries with keys
  \<open>'k\<close>, kept in insertion order. Floats are a type parameter \<open>'f\<close>: their addition and
  the conversion from \<open>int\<close> that \<open>+=\<close> applies to a mixed pair are passed to the
  functions as \<open>float_ops\<close>.
\<close>

datatype ('k, 'a, 'f) pyval =
    VNone
  | VBool bool
  | VInt int
  | VFloat 'f
  | VStr string
  | VList "('k, 'a, 'f) pyval list"
  | VSet "'a set"
  | VDict "('k \<times> ('k, 'a, 'f) pyval) list"

record 'f float_ops =
  float_add :: "'f \<Rightarrow> 'f \<Rightarrow> 'f"
  float_of_int :: "int \<Rightarrow> 'f"

fun is_number :: "('k, 'a, 'f) pyval \<Rightarrow> bool" where
  "is_number (VBool _) = True"
| "is_number (VInt _) = True"
| "is_number (VFloat _) = True"
| "is_number _ = False"

fun int_of_val :: "('k, 'a, 'f) pyval \<Rightarrow> int" where
  "int_of_val (VBool b) = (if b then 1 else 0)"
| "int_of_val (VInt i) = i"
| "int_of_val _ = 0"

fun float_of_val :: "'f float_ops \<Rightarrow> ('k, 'a, 'f) pyval \<Rightarrow> 'f" where
  "float_of_val F (VFloat x) = x"
| "float_of_val F v = float_of_int F (int_of_val v)"

fun is_float :: "('k, 'a, 'f) pyval \<Rightarrow> bool" where
  "is_float (VFloat _) = True"
| "is_float _ = False"

text \<open>\<open>base_dict[key] += val\<close> on two numbers.\<close>

definition py_add :: "'f float_ops \<Rightarrow> ('k, 'a, 'f) pyval \<Rightarrow> ('k, 'a, 'f) pyval \<Rightarrow> ('k, 'a, 'f) pyval" where
  "py_add F a b =
     (if is_float a \<or> is_float b then VFloat (float_add F (float_of_val F a) (float_of_val F b))
      else VInt (int_of_val a + int_of_val b))"

text \<open>
  \<open>add_dict\<close> walks the items of \<open>dict_to_add\<close>. For a key of the base dictionary,
  \<open>add_val\<close> is the chain of \<open>isinstance\<close> tests: two numbers are added, two lists
  concatenated, two sets united, two dictionaries merged by the recursive call, and every
  other pair leaves the base value as it is. A key the base lacks receives a (deep) copy
  of the value. The Python function updates \<open>base_dict\<close> in place and returns it; the
  model returns the updated dictionary.
\<close>

fun add_dict :: "'f float_ops \<Rightarrow> ('k \<times> ('k, 'a, 'f) pyval) list \<Rightarrow> ('k \<times> ('k, 'a, 'f) pyval) list
                  \<Rightarrow> ('k \<times> ('k, 'a, 'f) pyval) list"
  and add_val :: "'f float_ops \<Rightarrow> ('k, 'a, 'f) pyval \<Rightarrow> ('k, 'a, 'f) pyval \<Rightarrow> ('k, 'a, 'f) pyval"
where
  "add_dict F base_dict [] = base_dict"
| "add_dict F base_dict ((key, val) # rest) =
     add_dict F
       (case map_of base_dict key of
          Some b \<Rightarrow> dict_set key (add_val F b val) base_dict
        | None \<Rightarrow> dict_set key val base_dict)
       rest"
| "add_val F b val =
     (if is_number val \<and> is_number b then py_add F b val
      else (case (b, val) of
              (VList xs, VList ys) \<Rightarrow> VList (xs @ ys)
            | (VSet A, VSet B) \<Rightarrow> VSet (A \<union> B)
            | (VDict d, VDict e) \<Rightarrow> VDict (add_dict F d e)
            | _ \<Rightarrow> b))"


text \<open>The example of the docstring of \<open>add_dict\<close>.\<close>

definition real_ops :: "real float_ops" where
  "real_ops = \<lparr>float_add = (+), float_of_int = of_int\<rparr>"

definition doc_base :: "(string \<times> (string, nat, real) pyval) list" where
  "doc_base = [(''A'', VInt 1), (''B'', VDict [(''c'', VInt 2), (''d'', VInt 3)]),
               (''C'', VList [VInt 1, VInt 2, VInt 3])]"

definition doc_add :: "(string \<times> (string, nat, real) pyval) list" where
  "doc_add = [(''A'', VInt 1), (''B'', VDict [(''c'', VInt 1), (''e'', VInt 1)]),
              (''C'', VList [VInt 4]), (''D'', VInt 2)]"

section \<open>Concrete sentences and spans\<close>

subsection \<open>The round trip, and a sentence of two stacked annotations\<close>

text \<open>
  Encoding the spans of a sentence and decoding the annotation written to its tokens;
  the result is read back as trees.
\<close>

definition roundtrip ::
    "nat \<Rightarrow> heap \<Rightarrow> token list \<Rightarrow> nat list \<Rightarrow> string \<Rightarrow> error + stree option list" where
  "roundtrip n h sentence span_objs annoname =
     bind (span_to_BIO_annotation n h sentence span_objs annoname) (\<lambda>(h1, sentence').
     bind (span_from_BIO_annotation n h1 sentence' annoname) (\<lambda>(h2, decoded).
       Inr (map (reify n h2) decoded)))"

text \<open>
  Two tokens, each the only token of a \<open>PP\<close> inside an \<open>NP\<close> of its own: the forest
  \<open>[NP [PP t0]] [NP [PP t1]]\<close>. The tokens already carry the annotation that encodes
  it, so that encoding leaves them as they are.
\<close>

definition t0 :: token where
  "t0 = [(''ID'', ''1''), (''XPOS'', ''NN''), (''anno'', ''B-NP|B-PP'')]"

definition t1 :: token where
  "t1 = [(''ID'', ''2''), (''XPOS'', ''NN''), (''anno'', ''B-NP|B-PP'')]"

definition forest_S :: "error + (heap \<times> nat list)" where
  "forest_S =
     bind (Span_init 3 empty_heap ''PP'' [Tok t0]) (\<lambda>(h1, pp0).
     bind (Span_init 3 h1 ''NP'' [Ref pp0]) (\<lambda>(h2, np0).
     bind (Span_init 3 h2 ''PP'' [Tok t1]) (\<lambda>(h3, pp1).
     bind (Span_init 3 h3 ''NP'' [Ref pp1]) (\<lambda>(h4, np1). Inr (h4, [np0, np1])))))"





















section \<open>Properties of the code\<close>

subsection \<open>Evaluating the model on concrete inputs\<close>

lemmas span_defs = bind_def Span_init_def alloc_def new_obj_def empty_heap_def append_element_def
  set_elements_def set_parent_def upd_def index_from_ID_def py_int_def strip_def is_space_def
  digit_val_def get_start_index_def get_end_index_def startswith_def Let_def

lemmas codec_defs = roundtrip_def span_to_BIO_annotation_def span_from_BIO_annotation_def
  decode_token_def decode_level_def Span_begin_level_def sorted_spans_def
  add_tag_def annotate_span_def py_index_def enumerate_eq_zip


lemma map_of_dict_set: "map_of (dict_set k v d) = (map_of d)(k \<mapsto> v)"
  by (induction d) auto

subsection \<open>C1: the round trip\<close>

lemma forest_S_trees:
  "bind forest_S (\<lambda>(h, S). Inr (map (reify 3 h) S))
     = Inr [Some (STree ''NP'' [SSpan (STree ''PP'' [STok t0])]),
            Some (STree ''NP'' [SSpan (STree ''PP'' [STok t1])])]"
  by (simp add: forest_S_def t0_def t1_def span_defs eval_nat_numeral)

lemma forest_S_roundtrip:
  "bind forest_S (\<lambda>(h, S). roundtrip 3 h [t0, t1] S ''anno'')
     = Inr [Some (STree ''PP'' [STok t0]),
            Some (STree ''NP'' [SSpan (STree ''PP'' [STok t0]), SSpan (STree ''NP'' []),
                                SSpan (STree ''PP'' [STok t1])])]"
  by (simp add: forest_S_def t0_def t1_def span_defs codec_defs eval_nat_numeral)

text \<open>
  C1 (evaluated on the code). The forest \<open>[NP [PP t0]] [NP [PP t1]]\<close> is well-formed: every
  span holds one token. Encoding it and decoding the result does not give it back: the
  decoder returns the inner \<open>PP\<close> of the first span as a top-level span, followed by one
  \<open>NP\<close> that holds the first \<open>PP\<close>, an empty \<open>NP\<close> and the second \<open>PP\<close>.
\<close>

theorem C1_roundtrip_not_identity:
  "bind forest_S (\<lambda>(h, S). Inr (map (reify 3 h) S))
     = Inr [Some (STree ''NP'' [SSpan (STree ''PP'' [STok t0])]),
            Some (STree ''NP'' [SSpan (STree ''PP'' [STok t1])])]
   \<and> bind forest_S (\<lambda>(h, S). roundtrip 3 h [t0, t1] S ''anno'')
     = Inr [Some (STree ''PP'' [STok t0]),
            Some (STree ''NP'' [SSpan (STree ''PP'' [STok t0]), SSpan (STree ''NP'' []),
                                SSpan (STree ''PP'' [STok t1])])]
   \<and> bind forest_S (\<lambda>(h, S). roundtrip 3 h [t0, t1] S ''anno'')
     \<noteq> bind forest_S (\<lambda>(h, S). Inr (map (reify 3 h) S))"
  by (simp add: forest_S_trees forest_S_roundtrip)

subsection \<open>Facts about the index functions\<close>









subsection \<open>The index updates leave the links of an antecedent alone\<close>













subsection \<open>C2: a \<open>B-\<close> tag on level 0\<close>

text \<open>
  What the claim describes is what \<open>MovElem.span_from_BIO_annotation\<close> does: the root of
  the stack goes to the list and the stack is empty afterwards; on a deeper level the
  stack is cut to the level. \<open>Span\<close> agrees on the deeper levels only.
\<close>

lemma MovElem_begin_level_flushes_root:
  "span_stack st \<noteq> [] \<Longrightarrow>
   spans (MovElem_begin_level 0 st) = spans st @ [span_stack st ! 0]
   \<and> span_stack (MovElem_begin_level 0 st) = []"
  by (simp add: MovElem_begin_level_def hd_conv_nth)

lemma begin_level_deeper:
  "0 < i \<Longrightarrow>
   Span_begin_level i st = st\<lparr>span_stack := take i (span_stack st)\<rparr>
   \<and> MovElem_begin_level i st = st\<lparr>span_stack := take i (span_stack st)\<rparr>"
  by (simp add: MovElem_begin_level_def Span_begin_level_def)

text \<open>
  C2 (evaluated on the code). The sentence of the two tokens \<open>t0\<close> and \<open>t1\<close>, both
  annotated \<open>B-NP|B-PP\<close>. At the second token the stack holds the \<open>NP\<close> (address 0) and
  its \<open>PP\<close> (address 1). \<open>Span\<close>'s decoder moves the last span of the stack, the \<open>PP\<close>, to
  the list and keeps the \<open>NP\<close> on the stack; the new \<open>NP\<close> and \<open>PP\<close> become children of
  the old \<open>NP\<close>, which is returned as the second and last top-level span.
\<close>

theorem C2_Span_flushes_last_not_root:
  "Span_begin_level 0 \<lparr>d_heap = empty_heap, spans = [], span_stack = [0, 1]\<rparr>
     = \<lparr>d_heap = empty_heap, spans = [1], span_stack = [0]\<rparr>
   \<and> bind (span_from_BIO_annotation 3 empty_heap [t0, t1] ''anno'')
        (\<lambda>(h, result). Inr (result, map (reify 3 h) result))
     = Inr ([1, 0],
            [Some (STree ''PP'' [STok t0]),
             Some (STree ''NP'' [SSpan (STree ''PP'' [STok t0]), SSpan (STree ''NP'' []),
                                 SSpan (STree ''PP'' [STok t1])])])"
  by (simp add: t0_def t1_def span_defs codec_defs eval_nat_numeral)

subsection \<open>C3: \<open>I-\<close> without an open span\<close>






subsection \<open>C4: spans and trees of punctuation only\<close>




subsection \<open>C5: inserting beyond the end\<close>

text \<open>
  \<open>Span.insert_element\<close> refuses an index beyond the number of elements: it prints
  its error line and leaves the store as it is.
\<close>

lemma Span_insert_element_refuses:
  "int (length (elems (objs h a))) < index \<Longrightarrow> insert_element n h a index e = Inr (h, True)"
  by (simp add: insert_element_def)

text \<open>\<open>Tree.insert_child\<close> does not: beyond the end, the node becomes the last child.\<close>

lemma insert_child_beyond_end:
  "int (length (children self)) < index \<Longrightarrow>
   insert_child self index node = (True, Tree (category self) (tree_token self) (children self @ [node]))"
  by (simp add: insert_child_def py_list_insert_def Let_def)

text \<open>
  C5 (evaluated on the code). Inserting at index 5 into a tree node without children: the
  call returns \<open>True\<close> and the new node has been appended as the only child.
\<close>

theorem C5_insert_child_appends:
  "insert_child (Tree ''NP'' None []) 5 (Tree ''NN'' None [])
     = (True, Tree ''NP'' None [Tree ''NN'' None []])"
  by (simp add: insert_child_def py_list_insert_def)

subsection \<open>C6: containment with an absent index\<close>





subsection \<open>C7: the additive merge\<close>

lemma add_dict_lookup:
  "distinct (map fst dict_to_add) \<Longrightarrow>
   map_of (add_dict F base_dict dict_to_add) key =
     (case map_of dict_to_add key of
        None \<Rightarrow> map_of base_dict key
      | Some val \<Rightarrow>
          (case map_of base_dict key of
             None \<Rightarrow> Some val
           | Some b \<Rightarrow> Some (add_val F b val)))"
proof (induction dict_to_add arbitrary: base_dict)
  case Nil
  then show ?case by simp
next
  case (Cons kv rest)
  obtain k v where kv: "kv = (k, v)" by (cases kv)
  from Cons.prems kv have d: "distinct (map fst rest)" and nk: "map_of rest k = None"
    by (auto simp: map_of_eq_None_iff)
  show ?case
  proof (cases "key = k")
    case True
    then have "k = key" by simp
    with nk kv show ?thesis
      by (simp add: Cons.IH [OF d] map_of_dict_set split: option.splits del: add_val.simps)
  next
    case False
    with kv show ?thesis
      by (simp add: Cons.IH [OF d] map_of_dict_set split: option.splits del: add_val.simps)
  qed
qed

text \<open>
  C7. For every base dictionary and dictionary to add (a dictionary has each key once),
  the merged dictionary holds under each key: the base value when the key is not added;
  the added value when the base lacks the key; the sum of two integers or floats (an
  integer meeting a float is converted first); the union of two sets; the concatenation
  of two lists; and the recursive merge of two dictionaries.
\<close>

theorem C7_add_dict_merges:
  assumes "distinct (map fst dict_to_add)"
  shows
    "(map_of dict_to_add key = None \<longrightarrow>
        map_of (add_dict F base_dict dict_to_add) key = map_of base_dict key)
   \<and> (\<forall>val. map_of dict_to_add key = Some val \<and> map_of base_dict key = None \<longrightarrow>
        map_of (add_dict F base_dict dict_to_add) key = Some val)
   \<and> (\<forall>a b. map_of base_dict key = Some (VInt a) \<and> map_of dict_to_add key = Some (VInt b) \<longrightarrow>
        map_of (add_dict F base_dict dict_to_add) key = Some (VInt (a + b)))
   \<and> (\<forall>x y. map_of base_dict key = Some (VFloat x) \<and> map_of dict_to_add key = Some (VFloat y) \<longrightarrow>
        map_of (add_dict F base_dict dict_to_add) key = Some (VFloat (float_add F x y)))
   \<and> (\<forall>a y. map_of base_dict key = Some (VInt a) \<and> map_of dict_to_add key = Some (VFloat y) \<longrightarrow>
        map_of (add_dict F base_dict dict_to_add) key = Some (VFloat (float_add F (float_of_int F a) y)))
   \<and> (\<forall>x b. map_of base_dict key = Some (VFloat x) \<and> map_of dict_to_add key = Some (VInt b) \<longrightarrow>
        map_of (add_dict F base_dict dict_to_add) key = Some (VFloat (float_add F x (float_of_int F b))))
   \<and> (\<forall>A B. map_of base_dict key = Some (VSet A) \<and> map_of dict_to_add key = Some (VSet B) \<longrightarrow>
        map_of (add_dict F base_dict dict_to_add) key = Some (VSet (A \<union> B)))
   \<and> (\<forall>xs ys. map_of base_dict key = Some (VList xs) \<and> map_of dict_to_add key = Some (VList ys) \<longrightarrow>
        map_of (add_dict F base_dict dict_to_add) key = Some (VList (xs @ ys)))
   \<and> (\<forall>d e. map_of base_dict key = Some (VDict d) \<and> map_of dict_to_add key = Some (VDict e) \<longrightarrow>
        map_of (add_dict F base_dict dict_to_add) key = Some (VDict (add_dict F d e)))"
  by (simp add: add_dict_lookup [OF assms] py_add_def)

text \<open>The docstring's example, evaluated.\<close>

lemma add_dict_docstring_example:
  "add_dict real_ops doc_base doc_add =
     [(''A'', VInt 2), (''B'', VDict [(''c'', VInt 3), (''d'', VInt 3), (''e'', VInt 1)]),
      (''C'', VList [VInt 1, VInt 2, VInt 3, VInt 4]), (''D'', VInt 2)]"
  by (simp add: doc_base_def doc_add_def py_add_def)

text \<open>The theorem at the docstring's example, for the keys A, D, C and B.\<close>

theorem C7_add_dict_merges_witness:
  "distinct (map fst doc_add)
   \<and> map_of (add_dict real_ops doc_base doc_add) ''A'' = Some (VInt 2)
   \<and> map_of (add_dict real_ops doc_base doc_add) ''D'' = Some (VInt 2)
   \<and> map_of (add_dict real_ops doc_base doc_add) ''C'' = Some (VList [VInt 1, VInt 2, VInt 3, VInt 4])
   \<and> map_of (add_dict real_ops doc_base doc_add) ''B''
        = Some (VDict (add_dict real_ops [(''c'', VInt 2), (''d'', VInt 3)] [(''c'', VInt 1), (''e'', VInt 1)]))"
proof -
  have d: "distinct (map fst doc_add)" by (simp add: doc_add_def)
  have a: "map_of doc_base ''A'' = Some (VInt 1) \<and> map_of doc_add ''A'' = Some (VInt 1)"
    by (simp add: doc_base_def doc_add_def)
  have dd: "map_of doc_add ''D'' = Some (VInt 2) \<and> map_of doc_base ''D'' = None"
    by (simp add: doc_base_def doc_add_def)
  have c: "map_of doc_base ''C'' = Some (VList [VInt 1, VInt 2, VInt 3]) \<and> map_of doc_add ''C'' = Some (VList [VInt 4])"
    by (simp add: doc_base_def doc_add_def)
  have b: "map_of doc_base ''B'' = Some (VDict [(''c'', VInt 2), (''d'', VInt 3)])
           \<and> map_of doc_add ''B'' = Some (VDict [(''c'', VInt 1), (''e'', VInt 1)])"
    by (simp add: doc_base_def doc_add_def)
  from C7_add_dict_merges [OF d, of "''A''" real_ops doc_base] a
  have 1: "map_of (add_dict real_ops doc_base doc_add) ''A'' = Some (VInt 2)" by simp
  from C7_add_dict_merges [OF d, of "''D''" real_ops doc_base] dd
  have 2: "map_of (add_dict real_ops doc_base doc_add) ''D'' = Some (VInt 2)" by blast
  from C7_add_dict_merges [OF d, of "''C''" real_ops doc_base] c
  have 3: "map_of (add_dict real_ops doc_base doc_add) ''C'' = Some (VList [VInt 1, VInt 2, VInt 3, VInt 4])"
    by simp
  from C7_add_dict_merges [OF d, of "''B''" real_ops doc_base] b
  have 4: "map_of (add_dict real_ops doc_base doc_add) ''B''
        = Some (VDict (add_dict real_ops [(''c'', VInt 2), (''d'', VInt 3)] [(''c'', VInt 1), (''e'', VInt 1)]))"
    by blast
  from d 1 2 3 4 show ?thesis by blast
qed

subsection \<open>C8: antecedents in an incorrect location\<close>

























subsection \<open>C9: the distance of an antecedent and its cache\<close>





subsection \<open>C10: the indices of a span constructed empty\<close>

text \<open>
  C10. A span constructed with an empty element list, in any store and with any label:
  right after the constructor, the start and the end index with punctuation raise
  \<open>AttributeError\<close>, since the constructor has created neither \<open>start\<close> nor \<open>end\<close>; with
  \<open>ignore_punct\<close> both are \<open>None\<close>.
\<close>

theorem C10_empty_span_indices:
  "\<exists>h' a. Span_init n h label [] = Inr (h', a)
     \<and> get_start_index m h' a False = Inl AttributeError
     \<and> get_end_index m h' a False = Inl AttributeError
     \<and> get_start_index m h' a True = Inr (h', PNone)
     \<and> get_end_index m h' a True = Inr (h', PNone)"
  by (simp add: Span_init_def alloc_def new_obj_def bind_def get_start_index_def get_end_index_def)

end
